theory Spec2Isabelle
  imports Main "HOL-Library.Sublist"
begin

section \<open>Strings\<close>

text \<open>
  A Python \<open>str\<close> is a sequence of code points. The model reads a \<open>char\<close> as one code
  point below 256, so \<open>length\<close> counts what Python's \<open>len\<close> counts and the umlauts of
  the German markers are single characters (\<open>CHR 0xFC\<close> is u-umlaut, \<open>CHR 0xE4\<close> is
  a-umlaut).
\<close>

text \<open>\<open>w in t\<close> on two strings: \<open>w\<close> occurs in \<open>t\<close> as a contiguous run.\<close>

fun contains :: "string \<Rightarrow> string \<Rightarrow> bool" where
  "contains w [] = (w = [])"
| "contains w (c # t) = (prefix w (c # t) \<or> contains w t)"

text \<open>\<open>str.lower\<close> on code points below 256: the letters A to Z and the accented capitals
  0xC0 to 0xDE (the multiplication sign 0xD7 apart) move up by 32.\<close>

definition lower_char :: "char \<Rightarrow> char" where
  "lower_char c =
     (let n = (of_char c :: nat)
      in if (65 \<le> n \<and> n \<le> 90) \<or> (192 \<le> n \<and> n \<le> 222 \<and> n \<noteq> 215)
         then char_of (n + 32) else c)"

definition lower :: "string \<Rightarrow> string" where
  "lower s = map lower_char s"

text \<open>\<open>str.startswith\<close>.\<close>

definition startswith :: "string \<Rightarrow> string \<Rightarrow> bool" where
  "startswith s p = prefix p s"

text \<open>\<open>str.isspace\<close> for one code point below 256, and \<open>str.strip()\<close>.\<close>

definition isspace :: "char \<Rightarrow> bool" where
  "isspace c =
     (let n = (of_char c :: nat)
      in (9 \<le> n \<and> n \<le> 13) \<or> (28 \<le> n \<and> n \<le> 32) \<or> n = 133 \<or> n = 160)"

definition strip :: "string \<Rightarrow> string" where
  "strip s = rev (dropWhile isspace (rev (dropWhile isspace s)))"


section \<open>Job records and the workbook (scraper.py)\<close>

text \<open>The dict an adapter appends to \<open>jobs\<close> (scraper.py, lines 339-348 and 426-435).\<close>

record job =
  title :: string
  company :: string
  location :: string
  description :: string
  url :: string
  posted_date :: string
  platform :: string
  search_term :: string

text \<open>
  A cell of a data frame read from the workbook: \<open>None\<close> is the missing value (NaN) that
  \<open>dropna\<close> removes. A row has the eleven columns of the sheet, in their order.
\<close>

type_synonym cell = "string option"

record row =
  Job_Title :: cell
  Company :: cell
  Location :: cell
  Description :: cell
  URL :: cell
  Posted_Date :: cell
  Date_Added :: cell
  Applied :: cell
  Application_Date :: cell
  Status :: cell
  Notes :: cell

text \<open>
  The workbook \<open>jobs.xlsx\<close>: its sheets by name, each the list of its data rows as
  they are stored; \<open>None\<close> is an empty cell, \<open>Some s\<close> a cell holding the text \<open>s\<close>.
  Cells are text or empty here: the reader's inference of numbers and dates from cells
  that look like them is not modelled, and the properties below that depend on what is
  read say what they ask of the cells.
\<close>

type_synonym workbook = "string \<rightharpoonup> row list"

text \<open>The data rows a sheet holds; none when the workbook has no such sheet.\<close>

definition sheet_rows :: "workbook \<Rightarrow> string \<Rightarrow> row list" where
  "sheet_rows wb sheet_name = (case wb sheet_name of Some rows \<Rightarrow> rows | None \<Rightarrow> [])"

text \<open>
  \<open>pd.read_excel\<close> is called with its defaults (lines 112, 131), so a cell whose text
  is one of the reader's missing-value tokens is read as the missing value, like an
  empty cell. The tokens are those of pandas 2; the library is outside the program.
\<close>

definition na_values :: "string list" where
  "na_values =
     [[], ''#N/A'', ''#N/A N/A'', ''#NA'', ''-1.#IND'', ''-1.#QNAN'', ''-NaN'', ''-nan'',
      ''1.#IND'', ''1.#QNAN'', ''<NA>'', ''N/A'', ''NA'', ''NULL'', ''NaN'', ''None'',
      ''n/a'', ''nan'', ''null'']"

definition read_cell :: "cell \<Rightarrow> cell" where
  "read_cell c =
     (case c of None \<Rightarrow> None | Some s \<Rightarrow> if s \<in> set na_values then None else Some s)"

definition read_row :: "row \<Rightarrow> row" where
  "read_row r =
     \<lparr> Job_Title = read_cell (Job_Title r),
       Company = read_cell (Company r),
       Location = read_cell (Location r),
       Description = read_cell (Description r),
       URL = read_cell (URL r),
       Posted_Date = read_cell (Posted_Date r),
       Date_Added = read_cell (Date_Added r),
       Applied = read_cell (Applied r),
       Application_Date = read_cell (Application_Date r),
       Status = read_cell (Status r),
       Notes = read_cell (Notes r) \<rparr>"

text \<open>\<open>pd.read_excel(EXCEL_FILE, sheet_name=sheet_name)\<close>: \<open>None\<close> when it raises, the
  sheet being absent.\<close>

definition read_excel :: "workbook \<Rightarrow> string \<Rightarrow> row list option" where
  "read_excel wb sheet_name = map_option (map read_row) (wb sheet_name)"

text \<open>Lines 130-133: the frame read, or the empty frame when reading raises.\<close>

definition existing_frame :: "workbook \<Rightarrow> string \<Rightarrow> row list" where
  "existing_frame wb sheet_name =
     (case read_excel wb sheet_name of Some df \<Rightarrow> df | None \<Rightarrow> [])"

text \<open>
  \<open>create_excel_if_not_exists\<close> (lines 39-101). The argument is \<open>None\<close> when the file
  does not exist; then both platform sheets are written with no rows. On an existing
  file an old sheet \<open>Jobs\<close> is deleted. When \<open>Jobs\<close> is the only sheet, saving after the
  delete fails, the error is swallowed (lines 51-52) and what is left on disk cannot be
  read as a workbook; this is rendered as the workbook without sheets, which every read
  treats alike, and nothing below starts from it. Column widths and the frozen header
  are cosmetic and not modelled.
\<close>

definition create_excel_if_not_exists :: "workbook option \<Rightarrow> workbook" where
  "create_excel_if_not_exists file =
     (case file of
        Some wb \<Rightarrow> (if ''Jobs'' \<in> dom wb then wb(''Jobs'' := None) else wb)
      | None \<Rightarrow> [''StepStone'' \<mapsto> [], ''LinkedIn'' \<mapsto> []])"

text \<open>\<open>Series.dropna\<close> on a column, and \<open>set(df['URL'].dropna())\<close> as the list of its
  members.\<close>

fun dropna :: "cell list \<Rightarrow> string list" where
  "dropna [] = []"
| "dropna (None # cs) = dropna cs"
| "dropna (Some s # cs) = s # dropna cs"

text \<open>\<open>Series.isin\<close> for one cell: a missing value is in no set of strings.\<close>

fun isin :: "cell \<Rightarrow> string list \<Rightarrow> bool" where
  "isin None vs = False"
| "isin (Some s) vs = (s \<in> set vs)"

text \<open>The dict built for one new job (lines 140-152); \<open>today\<close> is the date of the merge.\<close>

definition new_row :: "string \<Rightarrow> job \<Rightarrow> row" where
  "new_row today j =
     \<lparr> Job_Title = Some (title j),
       Company = Some (company j),
       Location = Some (location j),
       Description = Some (description j),
       URL = Some (url j),
       Posted_Date = Some (posted_date j),
       Date_Added = Some today,
       Applied = Some ''No'',
       Application_Date = Some [],
       Status = Some ''New'',
       Notes = Some [] \<rparr>"

text \<open>
  \<open>append_jobs_to_excel\<close> (lines 119-200) as a function from the workbook before the
  call to the workbook after it. The existing frame is what the reader gives for the
  sheet (lines 130-133); \<open>DataFrame.empty\<close> is "no rows". The frame combined from it
  and the new rows replaces the sheet (lines 172-173); a missing value is written as an
  empty cell. The two early returns leave the workbook as it is.
\<close>

definition append_jobs_to_excel :: "string \<Rightarrow> job list \<Rightarrow> string \<Rightarrow> workbook \<Rightarrow> workbook" where
  "append_jobs_to_excel today new_jobs sheet_name wb =
     (if new_jobs = [] then wb
      else
        let df_existing = existing_frame wb sheet_name;
            new_data = map (new_row today) new_jobs;
            df_new = (if df_existing \<noteq> []
                      then filter (\<lambda>r. \<not> isin (URL r) (dropna (map URL df_existing))) new_data
                      else new_data)
        in if df_new = [] then wb
           else
             let df_combined = (if df_existing = [] then df_new else df_existing @ df_new)
             in wb(sheet_name \<mapsto> df_combined))"

text \<open>
  The new jobs that pass line 159: all of them on an empty frame, else those whose URL is
  not among the URLs of the frame.
\<close>

definition fresh_jobs :: "row list \<Rightarrow> job list \<Rightarrow> job list" where
  "fresh_jobs existing js =
     filter (\<lambda>j. existing = [] \<or> url j \<notin> set (dropna (map URL existing))) js"


section \<open>Rendered pages as the adapters see them\<close>

text \<open>
  The browser session and the HTML parser are outside the program. An element is what
  the adapters read from it: its tag, its \<open>class\<close>, \<open>href\<close> and \<open>datetime\<close> attributes
  (\<open>None\<close> when absent) and the result of \<open>get_text(strip=True)\<close>. A parsed fragment is
  the list of its elements in document order.
\<close>

record elem =
  tag_name :: string
  class_attr :: "string option"
  href_attr :: "string option"
  datetime_attr :: "string option"
  get_text :: string

text \<open>
  The class filters. \<open>lambda x: x and 'company' in str(x).lower() if x else False\<close>
  compares in lower case; \<open>lambda x: x and 'base-card' in x if x else False\<close> does not.
  The needles hold no blank, so a needle is in one of the class names exactly when it is
  in the attribute's text. An absent or empty attribute matches nothing.
\<close>

definition class_has_lower :: "string \<Rightarrow> elem \<Rightarrow> bool" where
  "class_has_lower needle e =
     (case class_attr e of None \<Rightarrow> False | Some x \<Rightarrow> x \<noteq> [] \<and> contains needle (lower x))"

definition class_has :: "string \<Rightarrow> elem \<Rightarrow> bool" where
  "class_has needle e =
     (case class_attr e of None \<Rightarrow> False | Some x \<Rightarrow> x \<noteq> [] \<and> contains needle x)"

text \<open>\<open>href=lambda x: x and '/jobs/view/' in x if x else False\<close>.\<close>

definition href_has :: "string \<Rightarrow> elem \<Rightarrow> bool" where
  "href_has needle e =
     (case href_attr e of None \<Rightarrow> False | Some x \<Rightarrow> x \<noteq> [] \<and> contains needle x)"

text \<open>\<open>find(name, ...)\<close>: the first element with that tag passing the filter, or \<open>None\<close>;
  \<open>find_all(name)\<close>: all of them, in order.\<close>

definition find_elem :: "string \<Rightarrow> (elem \<Rightarrow> bool) \<Rightarrow> elem list \<Rightarrow> elem option" where
  "find_elem name p soup = List.find (\<lambda>e. tag_name e = name \<and> p e) soup"

definition find_all :: "string \<Rightarrow> elem list \<Rightarrow> elem list" where
  "find_all name soup = filter (\<lambda>e. tag_name e = name) soup"

text \<open>\<open>find('p')\<close> and \<open>find('time')\<close> give no filter beside the tag.\<close>

definition no_filter :: "elem \<Rightarrow> bool" where
  "no_filter e = True"

text \<open>\<open>elem.get_text(strip=True) if elem else default\<close>.\<close>

definition text_or :: "elem option \<Rightarrow> string \<Rightarrow> string" where
  "text_or e d = (case e of Some x \<Rightarrow> get_text x | None \<Rightarrow> d)"

text \<open>\<open>date_elem.get('datetime', 'N/A') if date_elem else d\<close>.\<close>

definition datetime_or :: "elem option \<Rightarrow> string \<Rightarrow> string" where
  "datetime_or e d =
     (case e of
        Some x \<Rightarrow> (case datetime_attr x of Some v \<Rightarrow> v | None \<Rightarrow> ''N/A'')
      | None \<Rightarrow> d)"

text \<open>
  The guarded append both adapters end a card with:
  \<open>if not any(j['url'] == job_url for j in jobs): jobs.append(...)\<close>.
\<close>

definition append_new :: "job list \<Rightarrow> job \<Rightarrow> job list" where
  "append_new jobs j = (if \<not> list_ex (\<lambda>k. url k = url j) jobs then jobs @ [j] else jobs)"


section \<open>The StepStone adapter (scraper.py, lines 203-363)\<close>

text \<open>
  An \<open>article\<close> card. \<open>title_link\<close> is what the browser gives for the first link whose
  \<open>href\<close> holds \<open>/stellenangebote\<close>: \<open>None\<close> when \<open>find_element\<close> raises, else the link's
  text and its \<open>href\<close> as \<open>get_attribute\<close> returns it. \<open>outer_html\<close> is the card parsed.
\<close>

record stepstone_card =
  title_link :: "(string \<times> string option) option"
  outer_html :: "elem list"

text \<open>
  Lines 303-337 for one card: \<open>None\<close> is \<open>continue\<close>, by the missing link (the
  exception caught at line 351) or by the empty \<open>href\<close> (line 309); otherwise the dict
  of lines 339-348.
\<close>

definition stepstone_extract :: "string \<Rightarrow> string \<Rightarrow> stepstone_card \<Rightarrow> job option" where
  "stepstone_extract st loc job_card =
     (case title_link job_card of
        None \<Rightarrow> None
      | Some (link_text, link_href) \<Rightarrow>
          (case link_href of
             None \<Rightarrow> None
           | Some h \<Rightarrow>
               if h = [] then None
               else
                 let job_title = strip link_text;
                     job_url = (if \<not> startswith h ''http''
                                then ''https://www.stepstone.de'' @ h else h);
                     soup = outer_html job_card;
                     company_elem =
                       (case find_elem ''span'' (class_has_lower ''company'') soup of
                          Some e \<Rightarrow> Some e
                        | None \<Rightarrow>
                            (let spans = find_all ''span'' soup
                             in if length spans > 1 then Some (spans ! 1) else None));
                     company_v = text_or company_elem ''N/A'';
                     location_elem = find_elem ''span'' (class_has_lower ''location'') soup;
                     job_location = text_or location_elem loc;
                     desc_elem = find_elem ''p'' no_filter soup;
                     description_v = text_or desc_elem [];
                     date_elem = find_elem ''time'' no_filter soup;
                     posted_date_v = datetime_or date_elem ''N/A''
                 in Some \<lparr> title = job_title,
                            company = company_v,
                            location = job_location,
                            description = take 500 description_v,
                            url = job_url,
                            posted_date = posted_date_v,
                            platform = ''StepStone'',
                            search_term = st \<rparr>))"

text \<open>The loop over the cards of one page (lines 302-352), \<open>jobs\<close> being the list
  collected so far.\<close>

fun stepstone_cards :: "string \<Rightarrow> string \<Rightarrow> stepstone_card list \<Rightarrow> job list \<Rightarrow> job list" where
  "stepstone_cards st loc [] jobs = jobs"
| "stepstone_cards st loc (job_card # cards) jobs =
     (case stepstone_extract st loc job_card of
        None \<Rightarrow> stepstone_cards st loc cards jobs
      | Some j \<Rightarrow> stepstone_cards st loc cards (append_new jobs j))"

text \<open>
  The loop over pages (lines 272-358). A page is \<open>None\<close> when loading it or waiting for
  an \<open>article\<close> fails, else the cards found; a failed page and a page without cards both
  \<open>break\<close>.
\<close>

fun stepstone_pages ::
  "string \<Rightarrow> string \<Rightarrow> stepstone_card list option list \<Rightarrow> job list \<Rightarrow> job list" where
  "stepstone_pages st loc [] jobs = jobs"
| "stepstone_pages st loc (None # pages) jobs = jobs"
| "stepstone_pages st loc (Some cards # pages) jobs =
     (if cards = [] then jobs
      else stepstone_pages st loc pages (stepstone_cards st loc cards jobs))"

text \<open>
  \<open>scrape_stepstone\<close>: \<open>served\<close> lists what the session shows for pages 1, 2, ... of this
  search, and \<open>range(1, max_pages + 1)\<close> asks for the first \<open>max_pages\<close> of them (a page
  beyond the list is a failed page).
\<close>

definition scrape_stepstone ::
  "stepstone_card list option list \<Rightarrow> string \<Rightarrow> string \<Rightarrow> int \<Rightarrow> job list" where
  "scrape_stepstone served st loc max_pages =
     stepstone_pages st loc (take (nat max_pages) served) []"


section \<open>The LinkedIn adapter (scraper.py, lines 366-447)\<close>

text \<open>
  A parsed page is the list of its elements, each with the list of its own descendants;
  a card is the descendants of the element found.
\<close>

type_synonym linkedin_page = "(elem \<times> elem list) list"

text \<open>Lines 387-390: the \<open>div\<close>s whose class holds \<open>base-card\<close>, else the \<open>li\<close>s whose
  class holds \<open>job\<close> in any case.\<close>

definition linkedin_job_cards :: "linkedin_page \<Rightarrow> elem list list" where
  "linkedin_job_cards page =
     (let job_cards =
            map snd (filter (\<lambda>(e, ds). tag_name e = ''div'' \<and> class_has ''base-card'' e) page)
      in if job_cards = []
         then map snd (filter (\<lambda>(e, ds). tag_name e = ''li'' \<and> class_has_lower ''job'' e) page)
         else job_cards)"

text \<open>
  Lines 399-435 for one card: \<open>None\<close> when there is no title element (\<open>continue\<close>) or
  when \<open>job_url\<close> is \<open>None\<close> or empty (the guard of line 425 fails); otherwise the dict
  of lines 426-435.
\<close>

definition linkedin_extract :: "string \<Rightarrow> string \<Rightarrow> elem list \<Rightarrow> job option" where
  "linkedin_extract st loc job_card =
     (let title_elem =
            (case find_elem ''h3'' (class_has ''base-search-card__title'') job_card of
               Some e \<Rightarrow> Some e
             | None \<Rightarrow> find_elem ''a'' (href_has ''/jobs/view/'') job_card)
      in case title_elem of
           None \<Rightarrow> None
         | Some t \<Rightarrow>
             let job_title = get_text t;
                 link_elem = find_elem ''a'' (href_has ''/jobs/view/'') job_card;
                 job_url0 = (case link_elem of Some l \<Rightarrow> href_attr l | None \<Rightarrow> None);
                 job_url = (case job_url0 of
                              None \<Rightarrow> None
                            | Some h \<Rightarrow>
                                if h \<noteq> [] \<and> \<not> startswith h ''http''
                                then Some (''https://www.linkedin.com'' @ h) else Some h);
                 company_elem =
                   (case find_elem ''h4'' (class_has ''base-search-card__subtitle'') job_card of
                      Some e \<Rightarrow> Some e
                    | None \<Rightarrow> find_elem ''a'' (class_has_lower ''company'') job_card);
                 company_v = text_or company_elem ''N/A'';
                 location_elem = find_elem ''span'' (class_has ''job-search-card__location'') job_card;
                 job_location = text_or location_elem loc;
                 date_elem = find_elem ''time'' no_filter job_card;
                 posted_date_v = datetime_or date_elem ''24h''
             in (case job_url of
                   None \<Rightarrow> None
                 | Some u \<Rightarrow>
                     if u = [] then None
                     else Some \<lparr> title = job_title,
                                 company = company_v,
                                 location = job_location,
                                 description = [],
                                 url = u,
                                 posted_date = posted_date_v,
                                 platform = ''LinkedIn'',
                                 search_term = st \<rparr>))"

fun linkedin_cards :: "string \<Rightarrow> string \<Rightarrow> elem list list \<Rightarrow> job list \<Rightarrow> job list" where
  "linkedin_cards st loc [] jobs = jobs"
| "linkedin_cards st loc (job_card # cards) jobs =
     (case linkedin_extract st loc job_card of
        None \<Rightarrow> linkedin_cards st loc cards jobs
      | Some j \<Rightarrow> linkedin_cards st loc cards (append_new jobs j))"

text \<open>The loop over pages (lines 373-445): a page that fails to load (\<open>None\<close>) and a
  page without cards both \<open>break\<close>.\<close>

fun linkedin_pages ::
  "string \<Rightarrow> string \<Rightarrow> linkedin_page option list \<Rightarrow> job list \<Rightarrow> job list" where
  "linkedin_pages st loc [] jobs = jobs"
| "linkedin_pages st loc (None # pages) jobs = jobs"
| "linkedin_pages st loc (Some page # pages) jobs =
     (let job_cards = linkedin_job_cards page
      in if job_cards = [] then jobs
         else linkedin_pages st loc pages (linkedin_cards st loc job_cards jobs))"

definition scrape_linkedin ::
  "linkedin_page option list \<Rightarrow> string \<Rightarrow> string \<Rightarrow> int \<Rightarrow> job list" where
  "scrape_linkedin served st loc max_pages =
     linkedin_pages st loc (take (nat max_pages) served) []"


section \<open>The orchestrator (scraper.py, lines 450-501)\<close>

text \<open>
  \<open>scrape_all_platforms\<close>: \<open>serve\<close> gives, for a search term, the pages the session shows
  on either platform. The loop extends the two lists term by term.
\<close>

type_synonym session = "string \<Rightarrow> stepstone_card list option list \<times> linkedin_page option list"

fun scrape_terms ::
  "session \<Rightarrow> string \<Rightarrow> int \<Rightarrow> string list \<Rightarrow> job list \<times> job list \<Rightarrow> job list \<times> job list" where
  "scrape_terms serve loc max_pages [] acc = acc"
| "scrape_terms serve loc max_pages (st # sts) (stepstone_jobs, linkedin_jobs) =
     scrape_terms serve loc max_pages sts
       (stepstone_jobs @ scrape_stepstone (fst (serve st)) st loc max_pages,
        linkedin_jobs @ scrape_linkedin (snd (serve st)) st loc max_pages)"

definition scrape_all_platforms ::
  "session \<Rightarrow> string list \<Rightarrow> string \<Rightarrow> int \<Rightarrow> job list \<times> job list" where
  "scrape_all_platforms serve search_terms loc max_pages =
     scrape_terms serve loc max_pages search_terms ([], [])"

text \<open>The script's entry point (lines 473-501): create the workbook if needed, scrape
  the two fixed search terms, merge each platform's list into its sheet.\<close>

definition search_keywords :: "string list" where
  "search_keywords = [''werkstudent IT'', ''working student software'']"

definition main_run :: "string \<Rightarrow> workbook option \<Rightarrow> session \<Rightarrow> workbook" where
  "main_run today file serve =
     (let wb = create_excel_if_not_exists file;
          scraped = scrape_all_platforms serve search_keywords ''Berlin'' 2
      in append_jobs_to_excel today (snd scraped) ''LinkedIn''
           (append_jobs_to_excel today (fst scraped) ''StepStone'' wb))"


section \<open>Language detection and the prompt (resume_generator.py)\<close>

definition german_markers :: "string list" where
  "german_markers =
     [''und'', ''der'', ''die'', ''das'', ''mit'', ''f'' @ [CHR 0xFC] @ ''r'', ''bei'', ''nicht'',
      ''entwickeln'', ''bewerben'', ''kenntnisse'', ''erfahrung'',
      ''arbeitgeber'', ''bereich'', ''teamf'' @ [CHR 0xE4] @ ''hig'', ''studium'',
      ''werkstudent'', ''praktikum'']"

definition english_markers :: "string list" where
  "english_markers =
     [''and'', ''the'', ''with'', ''for'', ''software'', ''engineer'',
      ''responsibilities'', ''requirements'', ''experience'',
      ''working student'', ''internship'']"

text \<open>\<open>sum(1 for w in markers if w in t)\<close>.\<close>

definition score :: "string list \<Rightarrow> string \<Rightarrow> nat" where
  "score markers t = length (filter (\<lambda>w. contains w t) markers)"

text \<open>\<open>detect_language\<close> (lines 38-65); the argument \<open>None\<close> is Python's \<open>None\<close>, which
  \<open>text or ""\<close> turns into the empty string.\<close>

definition detect_language :: "string option \<Rightarrow> string" where
  "detect_language text_v =
     (let t = lower (case text_v of None \<Rightarrow> [] | Some s \<Rightarrow> s);
          german_score = score german_markers t;
          english_score = score english_markers t
      in if german_score > english_score then ''German'' else ''English'')"

definition english_instruction :: string where
  "english_instruction = ''Write the entire resume in fluent, professional English.''"

definition german_instruction :: string where
  "german_instruction =
     ''Write the entire resume in fluent, professional German. Use clear, simple sentences suitable for a working student CV.''"

text \<open>The lines of a triple-quoted text, each closed by a line feed.\<close>

definition text_lines :: "string list \<Rightarrow> string" where
  "text_lines ls = concat (map (\<lambda>l. l @ [CHR 0x0A]) ls)"

text \<open>
  \<open>build_resume_prompt\<close> (lines 68-108). \<open>profile_text\<close> and \<open>job_text\<close> are the two
  \<open>json.dumps\<close> results, taken as given. The literal opens with a line feed.
\<close>

definition build_resume_prompt :: "string \<Rightarrow> string \<Rightarrow> string \<Rightarrow> string" where
  "build_resume_prompt profile_text job_text target_language =
     (let language_instruction =
            (if startswith (lower target_language) ''en''
             then english_instruction else german_instruction)
      in [CHR 0x0A] @ text_lines
           [''You are an expert resume writer for software and AI roles.'',
            [],
            ''Task:'',
            ''Using the CANDIDATE_PROFILE and JOB_DESCRIPTION below, create a tailored, one-to-two-page resume in clean Markdown format.'',
            [],
            ''Language:'',
            ''- '' @ language_instruction,
            [],
            ''Requirements:'',
            ''- Focus on working student / junior software, data, or AI roles.'',
            ''- Start with a short professional summary tailored to the job.'',
            ''- Emphasize the most relevant skills for this specific job (hard skills first).'',
            ''- Reorder and selectively include experience and projects that best match the job description.'',
            ''- Use concise bullet points with strong action verbs and measurable impact where possible.'',
            ''- Use a neutral, professional tone.'',
            ''- Do NOT invent fake companies or degrees.'',
            ''- You may slightly rephrase tasks to better match the job wording, but keep them truthful.'',
            ''- Output ONLY the resume in Markdown (no explanation, no preamble).'',
            [],
            ''CANDIDATE_PROFILE (JSON):'',
            profile_text,
            [],
            ''JOB_DESCRIPTION (JSON):'',
            job_text])"

text \<open>
  The language and the prompt \<open>generate_tailored_resume\<close> settles on for a job
  (lines 126-130), before the call to the text-generation service.
\<close>

definition resume_prompt :: "string \<Rightarrow> string \<Rightarrow> job \<Rightarrow> string" where
  "resume_prompt profile_text job_text j =
     build_resume_prompt profile_text job_text (detect_language (Some (description j)))"


section \<open>Example inputs\<close>

text \<open>Two records of one posting found under the two search terms of the script, and
  a record of another posting.\<close>

definition job_a1 :: job where
  "job_a1 = \<lparr> title = ''Werkstudent IT'', company = ''Acme'', location = ''Berlin'',
              description = [], url = ''a'', posted_date = ''N/A'',
              platform = ''StepStone'', search_term = ''werkstudent IT'' \<rparr>"

definition job_a2 :: job where
  "job_a2 = \<lparr> title = ''Werkstudent IT'', company = ''Acme'', location = ''Berlin'',
              description = [], url = ''a'', posted_date = ''N/A'',
              platform = ''StepStone'', search_term = ''working student software'' \<rparr>"

definition job_b :: job where
  "job_b = \<lparr> title = ''Working Student'', company = ''Bolt'', location = ''Berlin'',
             description = [], url = ''b'', posted_date = ''N/A'',
             platform = ''StepStone'', search_term = ''werkstudent IT'' \<rparr>"


text \<open>A StepStone card with its link and two plain spans, none classed and no
  \<open>time\<close> element; the same card without a link.\<close>

definition span_plain :: "string \<Rightarrow> elem" where
  "span_plain t = \<lparr> tag_name = ''span'', class_attr = None, href_attr = None,
                     datetime_attr = None, get_text = t \<rparr>"

definition card_two_spans :: stepstone_card where
  "card_two_spans = \<lparr> title_link = Some (''Werkstudent IT'', Some ''/stellenangebote--1''),
                       outer_html = [span_plain ''Neu'', span_plain ''Acme''] \<rparr>"

definition card_no_link :: stepstone_card where
  "card_no_link = \<lparr> title_link = None,
                     outer_html = [span_plain ''Neu'', span_plain ''Acme''] \<rparr>"

text \<open>The session that shows this one card on StepStone for every search term, and
  nothing on LinkedIn.\<close>

definition serve_same_card :: session where
  "serve_same_card st = ([Some [card_two_spans]], [])"

text \<open>A LinkedIn card with a title and a link and no \<open>time\<close> element, the page
  holding it, and a card with a title and no link.\<close>

definition li_title :: elem where
  "li_title = \<lparr> tag_name = ''h3'', class_attr = Some ''base-search-card__title'',
                 href_attr = None, datetime_attr = None, get_text = ''Working Student'' \<rparr>"

definition li_link :: elem where
  "li_link = \<lparr> tag_name = ''a'', class_attr = None, href_attr = Some ''/jobs/view/1'',
                datetime_attr = None, get_text = ''Working Student'' \<rparr>"

definition li_div :: elem where
  "li_div = \<lparr> tag_name = ''div'', class_attr = Some ''base-card'', href_attr = None,
               datetime_attr = None, get_text = ''Working Student'' \<rparr>"

definition li_card_no_date :: "elem list" where
  "li_card_no_date = [li_title, li_link]"

definition li_card_no_link :: "elem list" where
  "li_card_no_link = [li_title]"

definition li_page_no_date :: linkedin_page where
  "li_page_no_date = [(li_div, li_card_no_date)]"


text \<open>Two records with the URLs of two StepStone postings, and a record whose URL is
  the text \<open>NA\<close>.\<close>

definition job_h1 :: job where
  "job_h1 = \<lparr> title = ''Werkstudent IT'', company = ''Acme'', location = ''Berlin'',
              description = ''Wir suchen'', url = ''https://www.stepstone.de/stellenangebote--1'',
              posted_date = ''2025-12-03'', platform = ''StepStone'',
              search_term = ''werkstudent IT'' \<rparr>"



text \<open>
  A row as an earlier run wrote it for a card without company and date (the sentinels
  of lines 324 and 336), with the user's columns filled in since, and the workbook whose
  StepStone sheet holds it.
\<close>

definition row_sentinel :: row where
  "row_sentinel = \<lparr> Job_Title = Some ''Tester'', Company = Some ''N/A'',
                    Location = Some ''Berlin'', Description = Some ''Wir testen'',
                    URL = Some ''https://www.stepstone.de/stellenangebote--7'',
                    Posted_Date = Some ''N/A'', Date_Added = Some ''2025-12-01'',
                    Applied = Some ''Yes'', Application_Date = Some ''2025-12-02'',
                    Status = Some ''Interview'', Notes = Some ''n/a'' \<rparr>"

definition wb_sentinel :: workbook where
  "wb_sentinel = [''StepStone'' \<mapsto> [row_sentinel], ''LinkedIn'' \<mapsto> []]"

text \<open>A StepStone card whose parsed markup holds the link, a span, a paragraph and a
  second span, in this order.\<close>

definition card_mixed :: stepstone_card where
  "card_mixed =
     \<lparr> title_link = Some (''Werkstudent IT'', Some ''/stellenangebote--1''),
       outer_html =
         [\<lparr> tag_name = ''a'', class_attr = None, href_attr = Some ''/stellenangebote--1'',
            datetime_attr = None, get_text = ''Werkstudent IT'' \<rparr>,
          span_plain ''Neu'',
          \<lparr> tag_name = ''p'', class_attr = None, href_attr = None,
            datetime_attr = None, get_text = ''Wir suchen'' \<rparr>,
          span_plain ''Acme''] \<rparr>"


section \<open>The merge\<close>

lemma set_dropna: "set (dropna cs) = {s. Some s \<in> set cs}"
  by (induction cs rule: dropna.induct) auto

lemma URL_new_row: "URL (new_row t j) = Some (url j)"
  by (simp add: new_row_def)

lemma URL_read_row: "URL (read_row r) = read_cell (URL r)"
  by (simp add: read_row_def)

lemma existing_frame_rows: "existing_frame wb s = map read_row (sheet_rows wb s)"
  by (cases "wb s") (simp_all add: existing_frame_def read_excel_def sheet_rows_def)

lemma filter_new_rows:
  "filter (\<lambda>r. \<not> isin (URL r) us) (map (new_row t) js)
     = map (new_row t) (filter (\<lambda>j. url j \<notin> set us) js)"
  by (induction js) (simp_all add: URL_new_row)

text \<open>The merge in one equation: the fresh jobs go after the rows read from the sheet,
  and nothing is written when there are none.\<close>

lemma append_jobs_to_excel_rows:
  "append_jobs_to_excel t js s wb =
     (if fresh_jobs (existing_frame wb s) js = [] then wb
      else wb(s \<mapsto> existing_frame wb s
                    @ map (new_row t) (fresh_jobs (existing_frame wb s) js)))"
proof (cases "existing_frame wb s = []")
  case True
  then show ?thesis
    by (auto simp add: append_jobs_to_excel_def fresh_jobs_def Let_def)
next
  case False
  then show ?thesis
    by (auto simp add: append_jobs_to_excel_def fresh_jobs_def Let_def filter_new_rows)
qed

lemma dropna_append: "dropna (xs @ ys) = dropna xs @ dropna ys"
  by (induction xs rule: dropna.induct) simp_all

lemma dropna_new_rows: "dropna (map URL (map (new_row t) js)) = map url js"
  by (induction js) (simp_all add: URL_new_row)

lemma urls_after_merge:
  "dropna (map URL (existing @ map (new_row t) js)) = dropna (map URL existing) @ map url js"
  using dropna_new_rows [of t js] by (simp add: dropna_append del: map_map)

text \<open>The URLs a frame shows once it has been written and read again: those that are
  no missing-value token.\<close>

lemma urls_read_again:
  "dropna (map URL (map read_row rows))
     = filter (\<lambda>u. u \<notin> set na_values) (dropna (map URL rows))"
proof (induction rows)
  case Nil
  then show ?case by simp
next
  case (Cons r rows)
  then show ?case
    by (cases "URL r") (simp_all add: URL_read_row read_cell_def)
qed




text \<open>What the filter of lines 157-159 does keep apart: the URLs read from the sheet
  stay pairwise distinct when the new records themselves have pairwise distinct URLs.\<close>

lemma merge_keeps_distinct_urls:
  assumes "distinct (dropna (map URL (existing_frame wb s)))" and "distinct (map url js)"
  shows "distinct (dropna (map URL (existing_frame (append_jobs_to_excel t js s wb) s)))"
proof (cases "fresh_jobs (existing_frame wb s) js = []")
  case True
  then show ?thesis using assms(1) by (simp add: append_jobs_to_excel_rows)
next
  case False
  let ?new = "fresh_jobs (existing_frame wb s) js"
  have d: "distinct (map url ?new)"
    unfolding fresh_jobs_def using assms(2) by (rule distinct_map_filter)
  have "set (dropna (map URL (existing_frame wb s))) \<inter> set (map url ?new) = {}"
    by (cases "existing_frame wb s = []") (auto simp add: fresh_jobs_def)
  then have "distinct (dropna (map URL (existing_frame wb s @ map (new_row t) ?new)))"
    using assms(1) d by (simp only: urls_after_merge distinct_append)
  moreover have "existing_frame (append_jobs_to_excel t js s wb) s
                   = map read_row (existing_frame wb s @ map (new_row t) ?new)"
    using False by (simp add: append_jobs_to_excel_rows existing_frame_rows sheet_rows_def)
  ultimately show ?thesis
    by (simp only: urls_read_again distinct_filter)
qed

text \<open>When no URL of the new records is read from the sheet, the sheet written is the
  frame read followed by the rows of the new records.\<close>

lemma merge_appends_after_frame_read:
  assumes "\<forall>j \<in> set js. url j \<notin> set (dropna (map URL (existing_frame wb s)))"
    and "js \<noteq> []"
  shows "sheet_rows (append_jobs_to_excel t js s wb) s
           = existing_frame wb s @ map (new_row t) js"
proof -
  have "fresh_jobs (existing_frame wb s) js = js"
    unfolding fresh_jobs_def using assms(1) by simp
  then show ?thesis
    using assms(2) by (simp add: append_jobs_to_excel_rows sheet_rows_def)
qed

text \<open>
  C1. On an empty platform sheet, a batch of two records with the same URL \<open>a\<close> is
  written as it is: the sheet then holds two rows with URL \<open>a\<close>, not one.
\<close>

theorem duplicate_batch_persists_two_rows:
  "map URL (sheet_rows
     (append_jobs_to_excel ''2025-12-03'' [job_a1, job_a2] ''StepStone''
        (create_excel_if_not_exists None)) ''StepStone'')
   = [Some ''a'', Some ''a'']"
  by code_simp

text \<open>
  C2. Pairwise distinct URLs are not an invariant of the sheet: one merge into the
  freshly created workbook leaves the LinkedIn sheet with a repeated URL.
\<close>

theorem fresh_sheet_merge_urls_not_distinct:
  "\<not> distinct (map URL (sheet_rows
       (append_jobs_to_excel ''2025-12-03'' [job_a1, job_b, job_a2] ''LinkedIn''
          (create_excel_if_not_exists None)) ''LinkedIn''))"
  by code_simp




text \<open>
  C5. An existing row is not always kept as it was. The sheet is read with the
  reader's defaults and written again from what was read, so a cell of an existing row
  that holds a missing-value token comes back empty: after a merge that adds one record
  with a new URL, the row written by an earlier run has lost the \<open>N/A\<close> of its company
  and posted date and the user's note \<open>n/a\<close>. Order is kept and the new row follows.
\<close>

theorem merge_blanks_cells_read_as_missing:
  "map Company (sheet_rows wb_sentinel ''StepStone'') = [Some ''N/A'']
   \<and> map Posted_Date (sheet_rows wb_sentinel ''StepStone'') = [Some ''N/A'']
   \<and> map Notes (sheet_rows wb_sentinel ''StepStone'') = [Some ''n/a'']
   \<and> map URL (sheet_rows
        (append_jobs_to_excel ''2025-12-03'' [job_h1] ''StepStone'' wb_sentinel) ''StepStone'')
       = [Some ''https://www.stepstone.de/stellenangebote--7'',
          Some ''https://www.stepstone.de/stellenangebote--1'']
   \<and> map Company (sheet_rows
        (append_jobs_to_excel ''2025-12-03'' [job_h1] ''StepStone'' wb_sentinel) ''StepStone'')
       = [None, Some ''Acme'']
   \<and> map Posted_Date (sheet_rows
        (append_jobs_to_excel ''2025-12-03'' [job_h1] ''StepStone'' wb_sentinel) ''StepStone'')
       = [None, Some ''2025-12-03'']
   \<and> map Notes (sheet_rows
        (append_jobs_to_excel ''2025-12-03'' [job_h1] ''StepStone'' wb_sentinel) ''StepStone'')
       = [None, Some []]"
  by code_simp


section \<open>The adapters\<close>

lemma append_new_all:
  assumes "\<forall>k \<in> set jobs. P k" and "P j"
  shows "\<forall>k \<in> set (append_new jobs j). P k"
  using assms by (simp add: append_new_def)

lemma stepstone_cards_all:
  assumes "\<forall>k \<in> set jobs. P k"
    and "\<And>c j. stepstone_extract st loc c = Some j \<Longrightarrow> P j"
  shows "\<forall>k \<in> set (stepstone_cards st loc cards jobs). P k"
  using assms(1)
proof (induction cards arbitrary: jobs)
  case Nil
  then show ?case by simp
next
  case (Cons c cards)
  show ?case
  proof (cases "stepstone_extract st loc c")
    case None
    then show ?thesis using Cons by simp
  next
    case (Some j)
    then have "\<forall>k \<in> set (append_new jobs j). P k"
      using Cons.prems assms(2) by (intro append_new_all) auto
    then show ?thesis using Some Cons.IH by simp
  qed
qed

lemma stepstone_pages_all:
  assumes "\<forall>k \<in> set jobs. P k"
    and "\<And>c j. stepstone_extract st loc c = Some j \<Longrightarrow> P j"
  shows "\<forall>k \<in> set (stepstone_pages st loc pages jobs). P k"
  using assms(1)
proof (induction pages arbitrary: jobs)
  case Nil
  then show ?case by simp
next
  case (Cons page pages)
  show ?case
  proof (cases page)
    case None
    then show ?thesis using Cons.prems by simp
  next
    case (Some cards)
    have "\<forall>k \<in> set (stepstone_cards st loc cards jobs). P k"
      using Cons.prems assms(2) by (rule stepstone_cards_all)
    then show ?thesis using Some Cons by simp
  qed
qed

lemma linkedin_cards_all:
  assumes "\<forall>k \<in> set jobs. P k"
    and "\<And>c j. linkedin_extract st loc c = Some j \<Longrightarrow> P j"
  shows "\<forall>k \<in> set (linkedin_cards st loc cards jobs). P k"
  using assms(1)
proof (induction cards arbitrary: jobs)
  case Nil
  then show ?case by simp
next
  case (Cons c cards)
  show ?case
  proof (cases "linkedin_extract st loc c")
    case None
    then show ?thesis using Cons by simp
  next
    case (Some j)
    then have "\<forall>k \<in> set (append_new jobs j). P k"
      using Cons.prems assms(2) by (intro append_new_all) auto
    then show ?thesis using Some Cons.IH by simp
  qed
qed

lemma linkedin_pages_all:
  assumes "\<forall>k \<in> set jobs. P k"
    and "\<And>c j. linkedin_extract st loc c = Some j \<Longrightarrow> P j"
  shows "\<forall>k \<in> set (linkedin_pages st loc pages jobs). P k"
  using assms(1)
proof (induction pages arbitrary: jobs)
  case Nil
  then show ?case by simp
next
  case (Cons page pages)
  show ?case
  proof (cases page)
    case None
    then show ?thesis using Cons.prems by simp
  next
    case (Some pg)
    have "\<forall>k \<in> set (linkedin_cards st loc (linkedin_job_cards pg) jobs). P k"
      using Cons.prems assms(2) by (rule linkedin_cards_all)
    then show ?thesis using Some Cons by (simp add: Let_def)
  qed
qed

lemma stepstone_extract_url: "stepstone_extract st loc c = Some j \<Longrightarrow> url j \<noteq> []"
  by (auto simp add: stepstone_extract_def Let_def split: option.splits prod.splits if_splits)

lemma linkedin_extract_url: "linkedin_extract st loc c = Some j \<Longrightarrow> url j \<noteq> []"
  by (auto simp add: linkedin_extract_def Let_def split: option.splits if_splits)

lemma linkedin_extract_description:
  "linkedin_extract st loc c = Some j \<Longrightarrow> description j = []"
  by (auto simp add: linkedin_extract_def Let_def split: option.splits if_splits)

lemma linkedin_extract_no_link:
  "find_elem ''a'' (href_has ''/jobs/view/'') c = None \<Longrightarrow> linkedin_extract st loc c = None"
  by (auto simp add: linkedin_extract_def Let_def split: option.splits if_splits)

text \<open>Every URL an adapter emits starts with \<open>http\<close> (lines 313-314 and 411-412).\<close>

lemma stepstone_extract_http:
  "stepstone_extract st loc c = Some j \<Longrightarrow> startswith (url j) ''http''"
  by (auto simp add: stepstone_extract_def Let_def startswith_def
      split: option.splits prod.splits if_splits)

lemma linkedin_extract_http:
  "linkedin_extract st loc c = Some j \<Longrightarrow> startswith (url j) ''http''"
  by (auto simp add: linkedin_extract_def Let_def startswith_def split: option.splits if_splits)

lemma adapter_urls_start_with_http:
  "(\<forall>j \<in> set (scrape_stepstone served st loc n). startswith (url j) ''http'')
   \<and> (\<forall>j \<in> set (scrape_linkedin lserved st loc n). startswith (url j) ''http'')"
proof -
  have "\<forall>j \<in> set (scrape_stepstone served st loc n). startswith (url j) ''http''"
    unfolding scrape_stepstone_def
    by (rule stepstone_pages_all) (simp_all add: stepstone_extract_http)
  moreover have "\<forall>j \<in> set (scrape_linkedin lserved st loc n). startswith (url j) ''http''"
    unfolding scrape_linkedin_def
    by (rule linkedin_pages_all) (simp_all add: linkedin_extract_http)
  ultimately show ?thesis by simp
qed

text \<open>
  C6. A card that yields no URL adds nothing. On StepStone that is a card without the
  title link, or whose link has no or an empty \<open>href\<close>; on LinkedIn a card without
  a link to \<open>/jobs/view/\<close>. Extraction gives no record, the loop goes on with the
  list it had, and no list an adapter returns holds a record with an empty URL.
\<close>

theorem card_without_url_is_skipped:
  "(title_link c = None \<or> title_link c = Some (t, None) \<or> title_link c = Some (t, Some [])
      \<longrightarrow> stepstone_extract st loc c = None
          \<and> stepstone_cards st loc (c # cs) jobs = stepstone_cards st loc cs jobs)
   \<and> (find_elem ''a'' (href_has ''/jobs/view/'') lc = None
      \<longrightarrow> linkedin_extract st loc lc = None
          \<and> linkedin_cards st loc (lc # lcs) ljobs = linkedin_cards st loc lcs ljobs)
   \<and> [] \<notin> set (map url (scrape_stepstone served st loc n))
   \<and> [] \<notin> set (map url (scrape_linkedin lserved st loc n))"
proof -
  have "stepstone_extract st loc c = None"
    if "title_link c = None \<or> title_link c = Some (t, None) \<or> title_link c = Some (t, Some [])"
    using that by (auto simp add: stepstone_extract_def)
  moreover have "linkedin_extract st loc lc = None"
    if "find_elem ''a'' (href_has ''/jobs/view/'') lc = None"
    using that by (rule linkedin_extract_no_link)
  moreover have "\<forall>k \<in> set (scrape_stepstone served st loc n). url k \<noteq> []"
    unfolding scrape_stepstone_def
    by (rule stepstone_pages_all) (simp_all add: stepstone_extract_url)
  moreover have "\<forall>k \<in> set (scrape_linkedin lserved st loc n). url k \<noteq> []"
    unfolding scrape_linkedin_def
    by (rule linkedin_pages_all) (simp_all add: linkedin_extract_url)
  ultimately show ?thesis by auto
qed

theorem card_without_url_is_skipped_witness:
  "title_link card_no_link = None
   \<and> stepstone_extract ''werkstudent IT'' ''Berlin'' card_no_link = None
   \<and> stepstone_cards ''werkstudent IT'' ''Berlin'' [card_no_link] [job_b] = [job_b]
   \<and> find_elem ''a'' (href_has ''/jobs/view/'') li_card_no_link = None
   \<and> linkedin_extract ''werkstudent IT'' ''Berlin'' li_card_no_link = None
   \<and> linkedin_cards ''werkstudent IT'' ''Berlin'' [li_card_no_link] [job_b] = [job_b]"
proof -
  have h1: "title_link card_no_link = None"
    by (simp add: card_no_link_def)
  have h2: "find_elem ''a'' (href_has ''/jobs/view/'') li_card_no_link = None"
    by code_simp
  show ?thesis
    using h1 h2
      card_without_url_is_skipped
        [where c = card_no_link and lc = li_card_no_link and st = "''werkstudent IT''"
           and loc = "''Berlin''" and cs = "[]" and jobs = "[job_b]" and lcs = "[]"
           and ljobs = "[job_b]"]
    by simp
qed

text \<open>
  C7. A StepStone card with a usable link and no span classed as company: the company
  is the text of the second span of the card when the card has at least two spans, and
  \<open>N/A\<close> otherwise; in both cases a record is produced.
\<close>

theorem company_falls_back_to_second_span:
  assumes "title_link c = Some (t, Some h)" and "h \<noteq> []"
    and "filter (\<lambda>e. tag_name e = ''span'' \<and> class_has_lower ''company'' e) (outer_html c) = []"
  shows "map_option company (stepstone_extract st loc c)
           = Some (if 1 < length (filter (\<lambda>e. tag_name e = ''span'') (outer_html c))
                   then get_text (filter (\<lambda>e. tag_name e = ''span'') (outer_html c) ! 1)
                   else ''N/A'')"
proof -
  have "find_elem ''span'' (class_has_lower ''company'') (outer_html c) = None"
    using assms(3) by (simp add: find_elem_def find_None_iff filter_empty_conv)
  then show ?thesis
    using assms(1,2) by (simp add: stepstone_extract_def Let_def text_or_def find_all_def)
qed

theorem company_falls_back_to_second_span_witness:
  "title_link card_mixed = Some (''Werkstudent IT'', Some ''/stellenangebote--1'')
   \<and> filter (\<lambda>e. tag_name e = ''span'' \<and> class_has_lower ''company'' e) (outer_html card_mixed) = []
   \<and> map tag_name (outer_html card_mixed) = [''a'', ''span'', ''p'', ''span'']
   \<and> map_option company (stepstone_extract ''werkstudent IT'' ''Berlin'' card_mixed)
       = Some ''Acme''"
proof -
  have h1: "title_link card_mixed = Some (''Werkstudent IT'', Some ''/stellenangebote--1'')"
    by (simp add: card_mixed_def)
  have h2: "''/stellenangebote--1'' \<noteq> []"
    by simp
  have h3: "filter (\<lambda>e. tag_name e = ''span'' \<and> class_has_lower ''company'' e)
              (outer_html card_mixed) = []"
    by code_simp
  have tags: "map tag_name (outer_html card_mixed) = [''a'', ''span'', ''p'', ''span'']"
    by code_simp
  have s: "filter (\<lambda>e. tag_name e = ''span'') (outer_html card_mixed)
             = [span_plain ''Neu'', span_plain ''Acme'']"
    by code_simp
  show ?thesis
    using h1 h3 tags
      company_falls_back_to_second_span [OF h1 h2 h3, of "''werkstudent IT''" "''Berlin''"]
    by (simp add: s span_plain_def)
qed

lemma stepstone_extract_posted_date:
  assumes "stepstone_extract st loc c = Some j"
  shows "posted_date j = datetime_or (find_elem ''time'' no_filter (outer_html c)) ''N/A''"
proof (cases "title_link c")
  case None
  then show ?thesis using assms by (simp add: stepstone_extract_def)
next
  case (Some p)
  obtain t h where p: "p = (t, h)" by (cases p)
  show ?thesis
  proof (cases h)
    case None
    then show ?thesis using assms Some p by (simp add: stepstone_extract_def)
  next
    case (Some u)
    then show ?thesis
      using assms \<open>title_link c = Some p\<close> p
      by (cases "u = []") (auto simp add: stepstone_extract_def Let_def)
  qed
qed

lemma linkedin_extract_posted_date:
  "linkedin_extract st loc lc = Some lj \<Longrightarrow>
     posted_date lj = datetime_or (find_elem ''time'' no_filter lc) ''24h''"
  by (auto simp add: linkedin_extract_def Let_def split: option.splits if_splits)

text \<open>
  C8, as stated, fails on LinkedIn: a LinkedIn card without a \<open>time\<close> element is
  emitted with the posted date \<open>24h\<close>.
\<close>

theorem linkedin_card_without_date_gets_24h:
  "find_elem ''time'' no_filter li_card_no_date = None
   \<and> map posted_date (scrape_linkedin [Some li_page_no_date] ''werkstudent IT'' ''Berlin'' 2)
       = [''24h'']"
  by code_simp

text \<open>
  C8, amended. A record emitted from a card without a \<open>time\<close> element has the posted
  date \<open>N/A\<close> on StepStone and \<open>24h\<close> on LinkedIn.
\<close>

theorem posted_date_without_date_element:
  "(find_elem ''time'' no_filter (outer_html c) = None
      \<longrightarrow> stepstone_extract st loc c = Some j \<longrightarrow> posted_date j = ''N/A'')
   \<and> (find_elem ''time'' no_filter lc = None
      \<longrightarrow> linkedin_extract st loc lc = Some lj \<longrightarrow> posted_date lj = ''24h'')"
  using stepstone_extract_posted_date [of st loc c j] linkedin_extract_posted_date [of st loc lc lj]
  by (simp add: datetime_or_def)

theorem posted_date_without_date_element_witness:
  "find_elem ''time'' no_filter (outer_html card_two_spans) = None
   \<and> map_option posted_date (stepstone_extract ''werkstudent IT'' ''Berlin'' card_two_spans)
       = Some ''N/A''
   \<and> find_elem ''time'' no_filter li_card_no_date = None
   \<and> map_option posted_date (linkedin_extract ''werkstudent IT'' ''Berlin'' li_card_no_date)
       = Some ''24h''"
proof -
  have h1: "find_elem ''time'' no_filter (outer_html card_two_spans) = None"
    by code_simp
  have h2: "find_elem ''time'' no_filter li_card_no_date = None"
    by code_simp
  have "stepstone_extract ''werkstudent IT'' ''Berlin'' card_two_spans \<noteq> None"
    by code_simp
  then obtain j where j: "stepstone_extract ''werkstudent IT'' ''Berlin'' card_two_spans = Some j"
    by blast
  have "linkedin_extract ''werkstudent IT'' ''Berlin'' li_card_no_date \<noteq> None"
    by code_simp
  then obtain lj where lj: "linkedin_extract ''werkstudent IT'' ''Berlin'' li_card_no_date = Some lj"
    by blast
  show ?thesis
    using h1 h2 j lj
      posted_date_without_date_element
        [where c = card_two_spans and lc = li_card_no_date and st = "''werkstudent IT''"
           and loc = "''Berlin''" and j = j and lj = lj]
    by simp
qed


section \<open>The orchestrator and the merge together\<close>

text \<open>
  C4. The lists of the search terms are joined before the merge, and nothing drops a
  URL found under two terms: with the same StepStone posting shown for both search
  terms of the script and a new workbook, the StepStone sheet ends with two rows of
  that URL.
\<close>

theorem same_posting_under_two_terms_is_stored_twice:
  "map search_term (fst (scrape_all_platforms serve_same_card search_keywords ''Berlin'' 2))
     = [''werkstudent IT'', ''working student software'']
   \<and> map URL (sheet_rows (main_run ''2025-12-03'' None serve_same_card) ''StepStone'')
     = [Some ''https://www.stepstone.de/stellenangebote--1'',
        Some ''https://www.stepstone.de/stellenangebote--1'']"
  by code_simp



section \<open>Language detection and the prompt\<close>

lemma contains_sublist: "contains w t \<longleftrightarrow> sublist w t"
  by (induction t) (simp_all add: sublist_Cons_right)

lemma contains_lower:
  assumes "contains w t"
  shows "contains (lower w) (lower t)"
proof -
  obtain ps ss where "t = ps @ w @ ss"
    using assms unfolding contains_sublist sublist_def by blast
  then have "lower t = lower ps @ lower w @ lower ss"
    by (simp add: lower_def)
  then show ?thesis
    unfolding contains_sublist sublist_def by blast
qed

lemma sublist_trans: "sublist a b \<Longrightarrow> sublist b c \<Longrightarrow> sublist a c"
proof -
  assume "sublist a b" and "sublist b c"
  then obtain p s q r where "b = p @ a @ s" and "c = q @ b @ r"
    unfolding sublist_def by blast
  then have "c = (q @ p) @ a @ (s @ r)"
    by simp
  then show ?thesis
    unfolding sublist_def by blast
qed

lemma contains_text_lines: "l \<in> set ls \<Longrightarrow> contains l (text_lines ls)"
proof (induction ls)
  case Nil
  then show ?case by simp
next
  case (Cons a ls)
  have split: "text_lines (a # ls) = a @ [CHR 0x0A] @ text_lines ls"
    by (simp add: text_lines_def)
  show ?case
  proof (cases "l = a")
    case True
    then show ?thesis unfolding split contains_sublist by simp
  next
    case False
    then have "sublist l (text_lines ls)"
      using Cons by (simp add: contains_sublist)
    then have "sublist l ((a @ [CHR 0x0A]) @ text_lines ls)"
      by (rule sublist_trans) (rule sublist_append_leftI)
    then show ?thesis unfolding split contains_sublist by simp
  qed
qed

lemma score_two_markers:
  assumes "contains a t" and "contains b t"
  shows "2 \<le> score (a # b # ms) t"
  using assms by (simp add: score_def)

lemma lower_German: "\<not> startswith (lower ''German'') ''en''"
  by code_simp

lemma german_prompt_lines:
  "\<exists>ls. build_resume_prompt profile_text job_text ''German'' = [CHR 0x0A] @ text_lines ls
        \<and> ''- '' @ german_instruction \<in> set ls"
  using lower_German
  by (simp only: build_resume_prompt_def Let_def if_False)
     (intro exI conjI, rule refl, (rule list.set_intros)+)

lemma german_prompt:
  "contains german_instruction (build_resume_prompt profile_text job_text ''German'')"
proof -
  obtain ls where p: "build_resume_prompt profile_text job_text ''German'' = [CHR 0x0A] @ text_lines ls"
    and l: "''- '' @ german_instruction \<in> set ls"
    using german_prompt_lines by blast
  have "sublist german_instruction (''- '' @ german_instruction)"
    by (rule sublist_append_leftI)
  moreover have "sublist (''- '' @ german_instruction) (text_lines ls)"
    using contains_text_lines [OF l] by (simp only: contains_sublist)
  ultimately have "sublist german_instruction (text_lines ls)"
    by (rule sublist_trans)
  then have "sublist german_instruction ([CHR 0x0A] @ text_lines ls)"
    by (rule sublist_trans) (rule sublist_append_leftI)
  then show ?thesis
    by (simp only: p contains_sublist)
qed

lemma german_markers_head: "german_markers = ''und'' # ''der'' # drop 2 german_markers"
  by (simp add: german_markers_def)

lemma lower_und_der: "lower ''und'' = ''und''" "lower ''der'' = ''der''"
  by code_simp+

lemma german_score_und_der:
  assumes "contains ''und'' d" and "contains ''der'' d"
  shows "2 \<le> score german_markers (lower d)"
proof -
  have "contains ''und'' (lower d)" and "contains ''der'' (lower d)"
    using contains_lower [OF assms(1)] contains_lower [OF assms(2)]
    by (simp_all only: lower_und_der)
  then have "2 \<le> score (''und'' # ''der'' # drop 2 german_markers) (lower d)"
    by (rule score_two_markers)
  then show ?thesis
    using german_markers_head by simp
qed

text \<open>
  C9, as stated, fails: a description can hold \<open>und\<close>, \<open>der\<close> and \<open>Entwicklung\<close>
  and still be detected as English, when it holds more English markers than German
  ones (\<open>Entwicklung\<close> itself is no marker).
\<close>

theorem german_words_among_english_markers_detect_english:
  "contains ''und'' ''und der Entwicklung and the for''
   \<and> contains ''der'' ''und der Entwicklung and the for''
   \<and> contains ''Entwicklung'' ''und der Entwicklung and the for''
   \<and> detect_language (Some ''und der Entwicklung and the for'') = ''English''"
  by code_simp

text \<open>
  C9, amended. For every job description that contains \<open>und\<close>, \<open>der\<close> and
  \<open>Entwicklung\<close> and in which at most one of the English markers occurs, language
  detection returns \<open>German\<close>, and the prompt built for the detected language contains
  the instruction that asks for German output.
\<close>

theorem german_description_gets_german_prompt:
  assumes "contains ''und'' d" and "contains ''der'' d" and "contains ''Entwicklung'' d"
    and "score english_markers (lower d) \<le> 1"
  shows "detect_language (Some d) = ''German''
         \<and> contains german_instruction
             (build_resume_prompt profile_text job_text (detect_language (Some d)))"
proof -
  have "2 \<le> score german_markers (lower d)"
    using assms(1,2) by (rule german_score_und_der)
  then have "detect_language (Some d) = ''German''"
    using assms(4) by (simp add: detect_language_def Let_def)
  then show ?thesis
    by (simp only: german_prompt)
qed

theorem german_description_gets_german_prompt_witness:
  "contains ''und'' ''und der Entwicklung''
   \<and> contains ''der'' ''und der Entwicklung''
   \<and> contains ''Entwicklung'' ''und der Entwicklung''
   \<and> score english_markers (lower ''und der Entwicklung'') \<le> 1
   \<and> detect_language (Some ''und der Entwicklung'') = ''German''
   \<and> contains german_instruction
       (build_resume_prompt ''{}'' ''{}'' (detect_language (Some ''und der Entwicklung'')))"
proof -
  have h1: "contains ''und'' ''und der Entwicklung''"
    by code_simp
  have h2: "contains ''der'' ''und der Entwicklung''"
    by code_simp
  have h3: "contains ''Entwicklung'' ''und der Entwicklung''"
    by code_simp
  have h4: "score english_markers (lower ''und der Entwicklung'') \<le> 1"
    by code_simp
  show ?thesis
    using h1 h2 h3 h4 german_description_gets_german_prompt [OF h1 h2 h3 h4, of "''{}''" "''{}''"]
    by blast
qed

lemma detect_language_empty: "detect_language (Some []) = ''English''"
  by code_simp

text \<open>
  C10. Every record the LinkedIn adapter returns has the empty description, and
  language detection on it gives \<open>English\<close>; detection gives \<open>English\<close> whenever the
  German score is not above the English score.
\<close>

theorem linkedin_records_have_no_description:
  "(\<forall>j \<in> set (scrape_linkedin served st loc n).
      description j = [] \<and> detect_language (Some (description j)) = ''English'')
   \<and> (score german_markers (lower d) \<le> score english_markers (lower d)
        \<longrightarrow> detect_language (Some d) = ''English'')"
proof -
  have "\<forall>j \<in> set (scrape_linkedin served st loc n). description j = []"
    unfolding scrape_linkedin_def
    by (rule linkedin_pages_all) (simp_all add: linkedin_extract_description)
  then have "\<forall>j \<in> set (scrape_linkedin served st loc n).
      description j = [] \<and> detect_language (Some (description j)) = ''English''"
    by (simp add: detect_language_empty)
  moreover have "detect_language (Some d) = ''English''"
    if "score german_markers (lower d) \<le> score english_markers (lower d)"
    using that by (simp add: detect_language_def Let_def)
  ultimately show ?thesis by blast
qed

theorem linkedin_records_have_no_description_witness:
  "scrape_linkedin [Some li_page_no_date] ''werkstudent IT'' ''Berlin'' 2 \<noteq> []
   \<and> description (hd (scrape_linkedin [Some li_page_no_date] ''werkstudent IT'' ''Berlin'' 2)) = []
   \<and> detect_language
        (Some (description (hd (scrape_linkedin [Some li_page_no_date] ''werkstudent IT'' ''Berlin'' 2))))
       = ''English''
   \<and> score german_markers (lower ''the und'') \<le> score english_markers (lower ''the und'')
   \<and> detect_language (Some ''the und'') = ''English''"
proof -
  have ne: "scrape_linkedin [Some li_page_no_date] ''werkstudent IT'' ''Berlin'' 2 \<noteq> []"
    by code_simp
  then have m: "hd (scrape_linkedin [Some li_page_no_date] ''werkstudent IT'' ''Berlin'' 2)
                  \<in> set (scrape_linkedin [Some li_page_no_date] ''werkstudent IT'' ''Berlin'' 2)"
    by (rule hd_in_set)
  have s: "score german_markers (lower ''the und'') \<le> score english_markers (lower ''the und'')"
    by code_simp
  show ?thesis
    using ne m s
      linkedin_records_have_no_description
        [of "[Some li_page_no_date]" "''werkstudent IT''" "''Berlin''" 2 "''the und''"]
    by blast
qed

end
